theory Spec2Isabelle
  imports Complex_Main "HOL-Library.Word" "HOL-Library.Sublist"
begin

section \<open>The marker quality heuristic of the upload form\<close>

text \<open>
  The development embeds \<open>validateMarkerImage\<close> of
  \<^verbatim>\<open>src/components/UploadInterface.tsx\<close>. The function decodes the chosen file
  into an \<open>Image\<close>, draws it on a canvas, reads the RGBA bytes back with
  \<open>getImageData\<close> and computes a quality score, a list of issues and a list of
  recommendations inside the \<open>onload\<close> handler of the image.

  JavaScript numbers are IEEE doubles. They are modelled by exact rationals: every
  quantity of the heuristic is a quotient of integers, and the model states what the
  arithmetic of the source means, without the rounding of the last bit. The two agree
  except on a threshold: when the colour sums of a pixel and of the pixel above it differ
  by exactly 90, the contrast is 30 here and may be 30.000000000000004 in doubles, which
  the test \<open>contrast > 30\<close> of the source counts as an edge; likewise an average contrast
  of exactly 15 may round to just below 15. On black, white and solid-colour pictures
  every intermediate value is exact in doubles.
\<close>

subsection \<open>Data\<close>

text \<open>
  The image as the handler sees it: \<open>img.width\<close>, \<open>img.height\<close> and
  \<open>imageData.data\<close>, a \<open>Uint8ClampedArray\<close> of four bytes (red, green, blue, alpha)
  for each pixel, in row-major order.
\<close>

record image =
  width :: nat
  height :: nat
  data :: "8 word list"

text \<open>
  What \<open>getImageData(0, 0, img.width, img.height)\<close> guarantees of the array it
  returns: both dimensions are positive (the call throws on a zero dimension) and the
  array holds \<open>4 * width * height\<close> bytes. Within these bounds every index the loop
  reads is in range.
\<close>

definition imageData_ok :: "image \<Rightarrow> bool" where
  "imageData_ok img \<longleftrightarrow>
     0 < width img \<and> 0 < height img \<and> length (data img) = 4 * width img * height img"

record ValidationResult =
  quality :: rat
  issues :: "string list"
  recommendations :: "string list"

subsection \<open>The edge pass\<close>

text \<open>A byte of the array read as a number.\<close>

definition num :: "8 word \<Rightarrow> rat" where
  "num b = of_nat (unat b)"

text \<open>
  The loop \<^verbatim>\<open>for (let i = 0; i < data.length; i += 4)\<close> with its two accumulators
  \<open>totalContrast\<close> and \<open>edgeCount\<close>. The guard of the comparison with the pixel of
  the previous row is \<^verbatim>\<open>i > img.width * 4\<close>, as in the source.
\<close>

function edge_loop :: "nat \<Rightarrow> 8 word list \<Rightarrow> nat \<Rightarrow> rat \<times> nat \<Rightarrow> rat \<times> nat" where
  "edge_loop w d i (totalContrast, edgeCount) =
     (if i < length d then
        (let r = num (d ! i);
             g = num (d ! (i + 1));
             b = num (d ! (i + 2));
             brightness = (r + g + b) / 3
         in if i > w * 4 then
              (let prevBrightness =
                     (num (d ! (i - w * 4)) + num (d ! (i - w * 4 + 1))
                        + num (d ! (i - w * 4 + 2))) / 3;
                   contrast = \<bar>brightness - prevBrightness\<bar>
               in edge_loop w d (i + 4)
                    (totalContrast + contrast,
                     if contrast > 30 then edgeCount + 1 else edgeCount))
            else edge_loop w d (i + 4) (totalContrast, edgeCount))
      else (totalContrast, edgeCount))"
  by pat_completeness auto
termination
  by (relation "measure (\<lambda>(w, d, i, acc). length d - i)") auto

declare edge_loop.simps [simp del]

definition edge_pass :: "image \<Rightarrow> rat \<times> nat" where
  "edge_pass img = edge_loop (width img) (data img) 0 (0, 0)"

text \<open>
  \<^verbatim>\<open>totalContrast / (data.length / 4)\<close> and \<^verbatim>\<open>edgeCount / (data.length / 4)\<close>.
  On an empty array JavaScript would divide zero by zero and yield \<open>NaN\<close>, where the
  division of HOL yields 0; \<open>getImageData\<close> returns no empty array, and every
  property below is stated for pictures that satisfy \<open>imageData_ok\<close>.
\<close>

definition avgContrast :: "image \<Rightarrow> rat" where
  "avgContrast img = fst (edge_pass img) / (of_nat (length (data img)) / 4)"

definition edgeDensity :: "image \<Rightarrow> rat" where
  "edgeDensity img = of_nat (snd (edge_pass img)) / (of_nat (length (data img)) / 4)"

subsection \<open>Score, issues and recommendations\<close>

text \<open>
  The body of the handler after the loop. The two arrays \<open>issues\<close> and
  \<open>recommendations\<close> start empty and grow by \<open>push\<close>; they are threaded through
  the four checks as a pair.
\<close>

definition onload :: "image \<Rightarrow> ValidationResult" where
  "onload img =
     (let avgC = avgContrast img;
          edgeD = edgeDensity img;
          q = min 100 (max 60 ((avgC / 30) * 100 + (edgeD * 1000)));
          s0 = ([], []);
          s1 = (if width img < 256 \<or> height img < 256
                then (fst s0 @ [''Image resolution is too low''],
                      snd s0 @ [''Use images with at least 256x256 resolution''])
                else s0);
          aspectRatio = (of_nat (width img) :: rat) / of_nat (height img);
          s2 = (if aspectRatio < 1 / 2 \<or> aspectRatio > 2
                then (fst s1 @ [''Unusual aspect ratio detected''],
                      snd s1 @ [''Use images with aspect ratios between 1:2 and 2:1''])
                else s1);
          s3 = (if avgC < 15
                then (fst s2 @ [''Low contrast detected''],
                      snd s2 @ [''Use images with clear, high-contrast features''])
                else s2);
          s4 = (if edgeD < 1 / 10
                then (fst s3,
                      snd s3 @ [''Add more distinct features or patterns for better tracking''])
                else s3)
      in \<lparr>quality = q, issues = fst s4, recommendations = snd s4\<rparr>)"

subsection \<open>The promise\<close>

text \<open>
  \<open>validateMarkerImage\<close> returns \<^verbatim>\<open>new Promise((resolve) => ...)\<close>. The executor
  installs \<open>img.onload\<close> and sets \<open>img.src\<close>; it installs no \<open>onerror\<close> handler and
  never takes the \<open>reject\<close> function. The browser then delivers one of two events to
  the image: \<open>load\<close>, with the decoded picture, or \<open>error\<close>, when the file cannot be
  decoded. Inside the \<open>load\<close> handler \<open>getImageData\<close> throws on a zero width or
  height, before \<open>resolve\<close> is reached.
\<close>

datatype image_event = LoadEvent image | ErrorEvent

datatype promise_error = DecodeError

datatype 'a promise = Pending | Fulfilled 'a | Rejected promise_error

definition validateMarkerImage :: "image_event \<Rightarrow> ValidationResult promise" where
  "validateMarkerImage ev =
     (case ev of
        LoadEvent img \<Rightarrow>
          if width img = 0 \<or> height img = 0 then Pending else Fulfilled (onload img)
      | ErrorEvent \<Rightarrow> Pending)"

subsection \<open>The handler as a program on its variables\<close>

text \<open>
  The handler again, this time as the imperative program it is. Its four mutable
  variables are made explicit: the accumulators \<open>totalContrast\<close> and \<open>edgeCount\<close>
  (declared with \<open>let\<close> and updated in the loop) and the arrays \<open>issues\<close> and
  \<open>recommendations\<close> (changed by \<open>push\<close>). A run takes the values the variables
  hold when it starts and returns the values they hold when it ends, together with the
  object passed to \<open>resolve\<close>. The handler reads no clock, no random source and no
  variable of the component; the two arrays and the two accumulators are all it changes.
\<close>

record handler_vars =
  totalContrast_var :: rat
  edgeCount_var :: nat
  issues_var :: "string list"
  recommendations_var :: "string list"

text \<open>\<^verbatim>\<open>let totalContrast = 0; let edgeCount = 0;\<close> and the loop.\<close>

definition run_edge_pass :: "image \<Rightarrow> handler_vars \<Rightarrow> handler_vars" where
  "run_edge_pass img s0 =
     (let s = s0\<lparr>totalContrast_var := 0\<rparr>;
          s = s\<lparr>edgeCount_var := 0\<rparr>;
          (tc, ec) = edge_loop (width img) (data img) 0 (totalContrast_var s, edgeCount_var s)
      in s\<lparr>totalContrast_var := tc, edgeCount_var := ec\<rparr>)"

text \<open>
  \<^verbatim>\<open>const issues = []; const recommendations = [];\<close> and the four checks, each
  \<open>push\<close> appending to the array as it stands.
\<close>

definition run_checks :: "image \<Rightarrow> rat \<Rightarrow> rat \<Rightarrow> handler_vars \<Rightarrow> handler_vars" where
  "run_checks img avgC edgeD s0 =
     (let s = s0\<lparr>issues_var := []\<rparr>;
          s = s\<lparr>recommendations_var := []\<rparr>;
          s = (if width img < 256 \<or> height img < 256
               then s\<lparr>issues_var := issues_var s @ [''Image resolution is too low''],
                      recommendations_var := recommendations_var s
                        @ [''Use images with at least 256x256 resolution'']\<rparr>
               else s);
          aspectRatio = (of_nat (width img) :: rat) / of_nat (height img);
          s = (if aspectRatio < 1 / 2 \<or> aspectRatio > 2
               then s\<lparr>issues_var := issues_var s @ [''Unusual aspect ratio detected''],
                      recommendations_var := recommendations_var s
                        @ [''Use images with aspect ratios between 1:2 and 2:1'']\<rparr>
               else s);
          s = (if avgC < 15
               then s\<lparr>issues_var := issues_var s @ [''Low contrast detected''],
                      recommendations_var := recommendations_var s
                        @ [''Use images with clear, high-contrast features'']\<rparr>
               else s)
      in (if edgeD < 1 / 10
          then s\<lparr>recommendations_var := recommendations_var s
                   @ [''Add more distinct features or patterns for better tracking'']\<rparr>
          else s))"

definition run_onload :: "image \<Rightarrow> handler_vars \<Rightarrow> handler_vars \<times> ValidationResult" where
  "run_onload img s0 =
     (let s = run_edge_pass img s0;
          avgC = totalContrast_var s / (of_nat (length (data img)) / 4);
          edgeD = of_nat (edgeCount_var s) / (of_nat (length (data img)) / 4);
          q = min 100 (max 60 ((avgC / 30) * 100 + (edgeD * 1000)));
          s = run_checks img avgC edgeD s
      in (s, \<lparr>quality = q, issues = issues_var s, recommendations = recommendations_var s\<rparr>))"

subsection \<open>Notions used to state the properties\<close>

text \<open>
  The brightness of pixel \<open>p\<close> (bytes \<open>4p\<close>, \<open>4p+1\<close>, \<open>4p+2\<close>) and the contrast of
  pixel \<open>p\<close> against the pixel \<open>w\<close> places before it, which is the pixel one row above
  when \<open>w\<close> is the width. These are the expressions \<open>brightness\<close>, \<open>prevBrightness\<close>
  and \<open>contrast\<close> of the loop body, indexed by pixel instead of by byte.
\<close>

definition brightness_at :: "8 word list \<Rightarrow> nat \<Rightarrow> rat" where
  "brightness_at d p =
     (num (d ! (4 * p)) + num (d ! (4 * p + 1)) + num (d ! (4 * p + 2))) / 3"

definition contrast_at :: "nat \<Rightarrow> 8 word list \<Rightarrow> nat \<Rightarrow> rat" where
  "contrast_at w d p = \<bar>brightness_at d p - brightness_at d (p - w)\<bar>"

text \<open>The clamp of the specification: \<open>clamp(x, min, max)\<close>.\<close>

definition clamp :: "rat \<Rightarrow> rat \<Rightarrow> rat \<Rightarrow> rat" where
  "clamp x lo hi = (if x < lo then lo else if hi < x then hi else x)"

text \<open>
  The edge pass in the words of the specification: every pixel whose linear index is at
  least one full row (\<open>w\<close> pixels) from the start is compared with the pixel one row
  above; its contrast is added to the total and counted as an edge when it exceeds 30.
\<close>

definition spec_edge_pass :: "image \<Rightarrow> rat \<times> nat" where
  "spec_edge_pass img =
     (let w = width img; d = data img; n = length d div 4
      in (sum_list (map (contrast_at w d) [w..<n]),
          length (filter (\<lambda>p. contrast_at w d p > 30) [w..<n])))"

text \<open>A picture of two rows of two pixels: a black row above a white row.\<close>

definition black_over_white :: image where
  "black_over_white =
     \<lparr>width = 2, height = 2,
      data = [0, 0, 0, 255,  0, 0, 0, 255,  255, 255, 255, 255,  255, 255, 255, 255]\<rparr>"

text \<open>The red, green and blue bytes of pixel \<open>p\<close>.\<close>

definition rgb_at :: "8 word list \<Rightarrow> nat \<Rightarrow> 8 word \<times> 8 word \<times> 8 word" where
  "rgb_at d p = (d ! (4 * p), d ! (4 * p + 1), d ! (4 * p + 2))"

text \<open>A solid-colour picture: every pixel has the colour of the first one.\<close>

definition uniform :: "image \<Rightarrow> bool" where
  "uniform img \<longleftrightarrow>
     list_all (\<lambda>p. rgb_at (data img) p = rgb_at (data img) 0) [0..<width img * height img]"

text \<open>
  A picture of grey rows: every pixel of row \<open>y\<close> has its three colour bytes equal to
  \<open>c y\<close>. Rows alternate between black and white when \<open>c\<close> alternates between 0 and
  255, starting with either.
\<close>

definition row_colours :: "image \<Rightarrow> (nat \<Rightarrow> 8 word) \<Rightarrow> bool" where
  "row_colours img c \<longleftrightarrow>
     list_all (\<lambda>p. rgb_at (data img) p =
                  (c (p div width img), c (p div width img), c (p div width img)))
       [0..<width img * height img]"

definition alternating_rows :: "image \<Rightarrow> bool" where
  "alternating_rows img \<longleftrightarrow>
     row_colours img (\<lambda>y. if even y then 0 else 255)
     \<or> row_colours img (\<lambda>y. if even y then 255 else 0)"

text \<open>Further pictures the properties are tried on.\<close>

definition white_square :: image where
  "white_square = \<lparr>width = 256, height = 256, data = replicate 262144 255\<rparr>"

definition striped_square :: image where
  "striped_square =
     \<lparr>width = 256, height = 256,
      data = map (\<lambda>i. if even (i div 1024) then 0 else 255) [0..<262144]\<rparr>"

definition one_pixel :: image where
  "one_pixel = \<lparr>width = 1, height = 1, data = [255, 255, 255, 255]\<rparr>"

definition small_square :: image where
  "small_square = \<lparr>width = 100, height = 100, data = replicate 40000 255\<rparr>"

definition wide_strip :: image where
  "wide_strip = \<lparr>width = 1000, height = 100, data = replicate 400000 255\<rparr>"

text \<open>
  Two starting values of the variables: all empty, and the values a run on a low-contrast
  picture leaves behind.
\<close>

definition fresh_vars :: handler_vars where
  "fresh_vars =
     \<lparr>totalContrast_var = 0, edgeCount_var = 0, issues_var = [], recommendations_var = []\<rparr>"

definition leftover_vars :: handler_vars where
  "leftover_vars =
     \<lparr>totalContrast_var = 510, edgeCount_var = 2,
      issues_var = [''Low contrast detected''],
      recommendations_var =
        [''Use images with clear, high-contrast features'',
         ''Add more distinct features or patterns for better tracking'']\<rparr>"

section \<open>The loop as a sum over pixels\<close>

lemma edge_loop_step:
  assumes "p < n" and "length d = 4 * n"
  shows "edge_loop w d (4 * p) (tc, ec) =
     (if w < p
      then edge_loop w d (4 * Suc p)
             (tc + contrast_at w d p, if contrast_at w d p > 30 then ec + 1 else ec)
      else edge_loop w d (4 * Suc p) (tc, ec))"
proof -
  have a: "4 * p - w * 4 = 4 * (p - w)" by simp
  have b: "4 * p + 4 = 4 * Suc p" by simp
  have c: "4 * p < length d" using assms by simp
  have d: "(4 * p > w * 4) = (w < p)" by auto
  show ?thesis
    by (subst edge_loop.simps)
       (simp only: a b c d Let_def contrast_at_def brightness_at_def if_True)
qed

lemma edge_loop_stop:
  assumes "n \<le> p" and "length d = 4 * n"
  shows "edge_loop w d (4 * p) acc = acc"
  using assms by (cases acc) (simp add: edge_loop.simps)

text \<open>
  From pixel \<open>p\<close> on, the loop adds the contrast of every pixel of index greater than
  \<open>w\<close>, and counts those whose contrast exceeds 30.
\<close>

lemma edge_loop_sum:
  assumes "length d = 4 * n"
  shows "edge_loop w d (4 * p) (tc, ec) =
     (tc + sum_list (map (contrast_at w d) [max p (Suc w)..<n]),
      ec + length (filter (\<lambda>q. contrast_at w d q > 30) [max p (Suc w)..<n]))"
proof (induction "n - p" arbitrary: p tc ec)
  case 0
  then have "n \<le> p" by simp
  then show ?case using assms by (simp add: edge_loop_stop)
next
  case (Suc k)
  then have lt: "p < n" and k: "k = n - Suc p" by simp_all
  note IH = Suc.hyps(1)[OF k]
  show ?case
  proof (cases "w < p")
    case True
    then have m: "max p (Suc w) = p" "max (Suc p) (Suc w) = Suc p" by simp_all
    have s: "[p..<n] = p # [Suc p..<n]" using lt by (rule upt_conv_Cons)
    show ?thesis
      unfolding edge_loop_step[OF lt assms] m s using True IH
      by (simp add: m)
  next
    case False
    then have m: "max p (Suc w) = Suc w" "max (Suc p) (Suc w) = Suc w" by simp_all
    show ?thesis
      unfolding edge_loop_step[OF lt assms] using False IH by (simp add: m)
  qed
qed

lemma edge_pass_sum:
  assumes "imageData_ok img"
  shows "edge_pass img =
     (sum_list (map (contrast_at (width img) (data img))
                  [Suc (width img)..<width img * height img]),
      length (filter (\<lambda>q. contrast_at (width img) (data img) q > 30)
                [Suc (width img)..<width img * height img]))"
proof -
  have len: "length (data img) = 4 * (width img * height img)"
    using assms by (simp add: imageData_ok_def)
  show ?thesis
    unfolding edge_pass_def using edge_loop_sum[OF len, of "width img" 0 0 0] by simp
qed

lemma pixelCount_pos:
  assumes "imageData_ok img"
  shows "0 < (of_nat (length (data img)) :: rat) / 4"
  using assms by (simp add: imageData_ok_def)

lemma contrast_at_nonneg: "0 \<le> contrast_at w d p"
  by (simp add: contrast_at_def)

lemma avgContrast_nonneg:
  assumes "imageData_ok img"
  shows "0 \<le> avgContrast img"
proof -
  have "0 \<le> fst (edge_pass img)"
    unfolding edge_pass_sum[OF assms] by (auto intro!: sum_list_nonneg simp: contrast_at_nonneg)
  then show ?thesis
    unfolding avgContrast_def using pixelCount_pos[OF assms] by simp
qed

lemma edgeDensity_nonneg: "0 \<le> edgeDensity img"
  by (simp add: edgeDensity_def)

lemma black_over_white_ok: "imageData_ok black_over_white"
  by (simp add: imageData_ok_def black_over_white_def)

lemma fulfilled_when_ok:
  assumes "imageData_ok img"
  shows "validateMarkerImage (LoadEvent img) = Fulfilled (onload img)"
  using assms by (simp add: validateMarkerImage_def imageData_ok_def)

lemma quality_onload:
  "quality (onload img) =
     min 100 (max 60 ((avgContrast img / 30) * 100 + (edgeDensity img * 1000)))"
  by (simp add: onload_def Let_def)

lemma issues_onload:
  "issues (onload img) =
     (if width img < 256 \<or> height img < 256 then [''Image resolution is too low''] else [])
     @ (if (of_nat (width img) :: rat) / of_nat (height img) < 1 / 2
           \<or> (of_nat (width img) :: rat) / of_nat (height img) > 2
        then [''Unusual aspect ratio detected''] else [])
     @ (if avgContrast img < 15 then [''Low contrast detected''] else [])"
  by (simp add: onload_def Let_def)

lemma recommendations_onload:
  "recommendations (onload img) =
     (if width img < 256 \<or> height img < 256
      then [''Use images with at least 256x256 resolution''] else [])
     @ (if (of_nat (width img) :: rat) / of_nat (height img) < 1 / 2
           \<or> (of_nat (width img) :: rat) / of_nat (height img) > 2
        then [''Use images with aspect ratios between 1:2 and 2:1''] else [])
     @ (if avgContrast img < 15 then [''Use images with clear, high-contrast features''] else [])
     @ (if edgeDensity img < 1 / 10
        then [''Add more distinct features or patterns for better tracking''] else [])"
  by (simp add: onload_def Let_def)

section \<open>Solid-colour pictures\<close>

lemma sum_list_const:
  "(\<And>x. x \<in> set xs \<Longrightarrow> f x = (c::rat)) \<Longrightarrow> sum_list (map f xs) = of_nat (length xs) * c"
  by (induction xs) (simp_all add: algebra_simps)

lemma brightness_eq: "rgb_at d p = rgb_at d q \<Longrightarrow> brightness_at d p = brightness_at d q"
  by (simp add: rgb_at_def brightness_at_def)

lemma uniform_contrast:
  assumes "uniform img" and "q < width img * height img"
  shows "contrast_at w (data img) q = 0"
proof -
  have "\<And>p. p < width img * height img \<Longrightarrow> rgb_at (data img) p = rgb_at (data img) 0"
    using assms(1) by (simp add: uniform_def list_all_iff)
  then have "rgb_at (data img) q = rgb_at (data img) (q - w)"
    using assms(2) by (metis less_imp_diff_less)
  then have "brightness_at (data img) q = brightness_at (data img) (q - w)"
    by (rule brightness_eq)
  then show ?thesis by (simp add: contrast_at_def)
qed

lemma uniform_edge_pass:
  assumes "imageData_ok img" and "uniform img"
  shows "edge_pass img = (0, 0)"
proof -
  have z: "\<And>q. q \<in> set [Suc (width img)..<width img * height img]
             \<Longrightarrow> contrast_at (width img) (data img) q = 0"
    using uniform_contrast[OF assms(2)] by simp
  have s: "sum_list (map (contrast_at (width img) (data img))
             [Suc (width img)..<width img * height img]) = 0"
    using sum_list_const[of "[Suc (width img)..<width img * height img]"
        "contrast_at (width img) (data img)" 0] z by simp
  have f: "filter (\<lambda>q. contrast_at (width img) (data img) q > 30)
             [Suc (width img)..<width img * height img] = []"
    using z by (simp add: filter_empty_conv)
  show ?thesis unfolding edge_pass_sum[OF assms(1)] s f by simp
qed

lemma white_square_ok: "imageData_ok white_square"
  by (simp add: imageData_ok_def white_square_def)

lemma white_square_uniform: "uniform white_square"
  by (simp add: uniform_def white_square_def list_all_iff rgb_at_def)

section \<open>Pictures of alternating black and white rows\<close>

lemma num_0: "num 0 = 0"
  by (simp add: num_def)

lemma num_255: "num 255 = 255"
  by (simp add: num_def)

lemma row_colours_brightness:
  assumes "row_colours img c" and "p < width img * height img"
  shows "brightness_at (data img) p = num (c (p div width img))"
proof -
  have "rgb_at (data img) p = (c (p div width img), c (p div width img), c (p div width img))"
    using assms by (simp add: row_colours_def list_all_iff)
  then show ?thesis by (simp add: rgb_at_def brightness_at_def)
qed

lemma row_above:
  assumes "0 < w" and "w \<le> p"
  shows "p div w = Suc ((p - w) div w)"
  using assms by (simp add: le_div_geq)

text \<open>Below the first row, every pixel differs from the one above it by 255.\<close>

lemma alternating_contrast:
  assumes "alternating_rows img" and "0 < width img"
    and "width img \<le> q" and "q < width img * height img"
  shows "contrast_at (width img) (data img) q = 255"
proof -
  have up: "q - width img < width img * height img" using assms(4) by simp
  have r: "q div width img = Suc ((q - width img) div width img)"
    using assms(2,3) by (rule row_above)
  from assms(1) consider
      (black) "row_colours img (\<lambda>y. if even y then 0 else 255)"
    | (white) "row_colours img (\<lambda>y. if even y then 255 else 0)"
    unfolding alternating_rows_def by blast
  then show ?thesis
  proof cases
    case black
    show ?thesis
      unfolding contrast_at_def row_colours_brightness[OF black assms(4)]
        row_colours_brightness[OF black up] r
      by (simp add: num_0 num_255)
  next
    case white
    show ?thesis
      unfolding contrast_at_def row_colours_brightness[OF white assms(4)]
        row_colours_brightness[OF white up] r
      by (simp add: num_0 num_255)
  qed
qed

lemma alternating_edge_pass:
  assumes "imageData_ok img" and "alternating_rows img"
  shows "edge_pass img =
     (255 * of_nat (width img * height img - Suc (width img)),
      width img * height img - Suc (width img))"
proof -
  let ?xs = "[Suc (width img)..<width img * height img]"
  have w: "0 < width img" using assms(1) by (simp add: imageData_ok_def)
  have c: "\<And>q. q \<in> set ?xs \<Longrightarrow> contrast_at (width img) (data img) q = 255"
    using alternating_contrast[OF assms(2) w] by simp
  have s: "sum_list (map (contrast_at (width img) (data img)) ?xs)
             = of_nat (length ?xs) * 255"
    using c by (rule sum_list_const)
  have f: "filter (\<lambda>q. contrast_at (width img) (data img) q > 30) ?xs = ?xs"
    using c by (simp add: filter_id_conv)
  show ?thesis unfolding edge_pass_sum[OF assms(1)] s f by simp
qed

lemma nth_map_upt0: "i < n \<Longrightarrow> map f [0..<n] ! i = f i"
  by simp

lemma striped_square_ok: "imageData_ok striped_square"
  unfolding imageData_ok_def striped_square_def by simp

lemma striped_square_rows: "alternating_rows striped_square"
proof -
  have "rgb_at (data striped_square) p =
      (if even (p div width striped_square) then 0 else 255,
       if even (p div width striped_square) then 0 else 255,
       if even (p div width striped_square) then 0 else 255)"
    if "p < 65536" for p
  proof -
    have q: "(4 * p) div 4 = p" "(4 * p + 1) div 4 = p" "(4 * p + 2) div 4 = p"
      by simp_all
    have k: "(1024::nat) = 4 * 256" by simp
    have d: "(4 * p) div 1024 = p div 256" "(4 * p + 1) div 1024 = p div 256"
      "(4 * p + 2) div 1024 = p div 256"
      unfolding k div_mult2_eq q by simp_all
    have i: "4 * p < 262144" "4 * p + 1 < 262144" "4 * p + 2 < 262144"
      using that by simp_all
    have w: "width striped_square = 256"
      and dd: "data striped_square = map (\<lambda>i. if even (i div 1024) then 0 else 255) [0..<262144]"
      unfolding striped_square_def by simp_all
    show ?thesis
      unfolding rgb_at_def w dd nth_map_upt0[OF i(1)] nth_map_upt0[OF i(2)]
        nth_map_upt0[OF i(3)] d by simp
  qed
  moreover have "width striped_square * height striped_square = 65536"
    unfolding striped_square_def by simp
  ultimately have "row_colours striped_square (\<lambda>y. if even y then 0 else 255)"
    unfolding row_colours_def list_all_iff by simp
  then show ?thesis by (simp add: alternating_rows_def)
qed

section \<open>The small pictures, evaluated\<close>

lemma black_over_white_pass: "edge_pass black_over_white = (255, 1)"
  unfolding edge_pass_def black_over_white_def by code_simp

lemma black_over_white_spec: "spec_edge_pass black_over_white = (510, 2)"
  unfolding spec_edge_pass_def black_over_white_def by code_simp

lemma black_over_white_length: "length (data black_over_white) = 16"
  by (simp add: black_over_white_def)

lemma black_over_white_avg: "avgContrast black_over_white = 255 / 4"
  by (simp add: avgContrast_def black_over_white_pass black_over_white_length)

lemma black_over_white_density: "edgeDensity black_over_white = 1 / 4"
  by (simp add: edgeDensity_def black_over_white_pass black_over_white_length)

lemma one_pixel_ok: "imageData_ok one_pixel"
  by (simp add: imageData_ok_def one_pixel_def)

lemma one_pixel_pass: "edge_pass one_pixel = (0, 0)"
  unfolding edge_pass_def one_pixel_def by code_simp

lemma one_pixel_avg: "avgContrast one_pixel = 0"
  by (simp add: avgContrast_def one_pixel_pass)

lemma one_pixel_density: "edgeDensity one_pixel = 0"
  by (simp add: edgeDensity_def one_pixel_pass)

lemma small_square_ok: "imageData_ok small_square"
  by (simp add: imageData_ok_def small_square_def)

lemma wide_strip_ok: "imageData_ok wide_strip"
  by (simp add: imageData_ok_def wide_strip_def)

text \<open>
  The edge pass of the specification and the loop of the source differ by one pixel: the
  first pixel of the second row, of index \<open>width\<close>, which the guard
  \<^verbatim>\<open>i > img.width * 4\<close> leaves out although the pixel above it exists.
\<close>

lemma spec_edge_pass_extra_pixel:
  assumes "imageData_ok img" and "2 \<le> height img"
  shows "spec_edge_pass img =
     (fst (edge_pass img) + contrast_at (width img) (data img) (width img),
      snd (edge_pass img)
        + (if contrast_at (width img) (data img) (width img) > 30 then 1 else 0))"
proof -
  have len: "length (data img) div 4 = width img * height img"
    using assms(1) by (simp add: imageData_ok_def)
  have "width img * 2 \<le> width img * height img" using assms(2) by simp
  moreover have "0 < width img" using assms(1) by (simp add: imageData_ok_def)
  ultimately have lt: "width img < width img * height img" by simp
  have s: "[width img..<width img * height img]
             = width img # [Suc (width img)..<width img * height img]"
    using lt by (rule upt_conv_Cons)
  show ?thesis
    unfolding spec_edge_pass_def Let_def len s edge_pass_sum[OF assms(1)] by simp
qed

section \<open>The shape of the two lists\<close>

lemma lists_shape:
  fixes a b c d :: bool
  shows "subseq ((if a then [''Image resolution is too low''] else [])
           @ (if b then [''Unusual aspect ratio detected''] else [])
           @ (if c then [''Low contrast detected''] else []))
           [''Image resolution is too low'', ''Unusual aspect ratio detected'',
            ''Low contrast detected'']
     \<and> distinct ((if a then [''Image resolution is too low''] else [])
           @ (if b then [''Unusual aspect ratio detected''] else [])
           @ (if c then [''Low contrast detected''] else []))
     \<and> subseq ((if a then [''Use images with at least 256x256 resolution''] else [])
           @ (if b then [''Use images with aspect ratios between 1:2 and 2:1''] else [])
           @ (if c then [''Use images with clear, high-contrast features''] else [])
           @ (if d then [''Add more distinct features or patterns for better tracking'']
              else []))
           [''Use images with at least 256x256 resolution'',
            ''Use images with aspect ratios between 1:2 and 2:1'',
            ''Use images with clear, high-contrast features'',
            ''Add more distinct features or patterns for better tracking'']
     \<and> distinct ((if a then [''Use images with at least 256x256 resolution''] else [])
           @ (if b then [''Use images with aspect ratios between 1:2 and 2:1''] else [])
           @ (if c then [''Use images with clear, high-contrast features''] else [])
           @ (if d then [''Add more distinct features or patterns for better tracking'']
              else []))"
  by (cases a; cases b; cases c; cases d) simp_all

lemma lists_length:
  fixes a b c d :: bool
  shows "length ((if a then [x1] else []) @ (if b then [x2] else []) @ (if c then [x3] else []))
       \<le> length ((if a then [y1] else []) @ (if b then [y2] else [])
             @ (if c then [y3] else []) @ (if d then [y4] else []))"
  by simp

section \<open>The handler on its variables returns what the functional reading returns\<close>

lemma run_edge_pass_vars:
  "totalContrast_var (run_edge_pass img s) = fst (edge_pass img)"
  "edgeCount_var (run_edge_pass img s) = snd (edge_pass img)"
  by (simp_all add: run_edge_pass_def edge_pass_def split_beta)

lemma run_checks_issues:
  "issues_var (run_checks img a e s) =
     (if width img < 256 \<or> height img < 256 then [''Image resolution is too low''] else [])
     @ (if (of_nat (width img) :: rat) / of_nat (height img) < 1 / 2
           \<or> (of_nat (width img) :: rat) / of_nat (height img) > 2
        then [''Unusual aspect ratio detected''] else [])
     @ (if a < 15 then [''Low contrast detected''] else [])"
  by (simp add: run_checks_def Let_def)

lemma run_checks_recommendations:
  "recommendations_var (run_checks img a e s) =
     (if width img < 256 \<or> height img < 256
      then [''Use images with at least 256x256 resolution''] else [])
     @ (if (of_nat (width img) :: rat) / of_nat (height img) < 1 / 2
           \<or> (of_nat (width img) :: rat) / of_nat (height img) > 2
        then [''Use images with aspect ratios between 1:2 and 2:1''] else [])
     @ (if a < 15 then [''Use images with clear, high-contrast features''] else [])
     @ (if e < 1 / 10
        then [''Add more distinct features or patterns for better tracking''] else [])"
  by (simp add: run_checks_def Let_def)

text \<open>
  Whatever the variables hold at the start, the object the handler resolves with is the
  one \<open>onload\<close> computes: the initialisations of the source overwrite every variable
  before it is read.
\<close>

lemma run_onload_result: "snd (run_onload img s) = onload img"
proof -
  have q: "quality (snd (run_onload img s)) = quality (onload img)"
    unfolding quality_onload
    by (simp add: run_onload_def Let_def run_edge_pass_vars avgContrast_def edgeDensity_def)
  have i: "issues (snd (run_onload img s)) = issues (onload img)"
    unfolding issues_onload
    by (simp only: run_onload_def Let_def snd_conv ValidationResult.simps run_checks_issues
        run_edge_pass_vars avgContrast_def)
  have r: "recommendations (snd (run_onload img s)) = recommendations (onload img)"
    unfolding recommendations_onload
    by (simp only: run_onload_def Let_def snd_conv ValidationResult.simps
        run_checks_recommendations run_edge_pass_vars avgContrast_def edgeDensity_def)
  show ?thesis using q i r by simp
qed

section \<open>The properties\<close>

text \<open>
  C1. For every decoded image the operation returns a result whose quality is
  \<open>clamp((avgContrast / 30) * 100 + edgeDensity * 1000, 60, 100)\<close>; hence the quality
  lies between 60 and 100, and no score below 60 is ever returned.
\<close>

theorem C1_quality_is_clamped:
  assumes "imageData_ok img"
  shows "\<exists>r. validateMarkerImage (LoadEvent img) = Fulfilled r
           \<and> quality r = clamp ((avgContrast img / 30) * 100 + edgeDensity img * 1000) 60 100
           \<and> 60 \<le> quality r \<and> quality r \<le> 100 \<and> \<not> quality r < 60"
proof -
  let ?x = "(avgContrast img / 30) * 100 + edgeDensity img * 1000"
  have q: "quality (onload img) = min 100 (max 60 ?x)" by (rule quality_onload)
  have c: "min 100 (max 60 ?x) = clamp ?x 60 100" by (simp add: clamp_def min_def max_def)
  have b: "60 \<le> min 100 (max 60 ?x)" "min 100 (max 60 ?x) \<le> 100" by simp_all
  show ?thesis
    using fulfilled_when_ok[OF assms] q c b by auto
qed

theorem C1_quality_is_clamped_witness:
  "imageData_ok black_over_white
   \<and> (\<exists>r. validateMarkerImage (LoadEvent black_over_white) = Fulfilled r
          \<and> 60 \<le> quality r \<and> quality r \<le> 100)"
  using C1_quality_is_clamped[OF black_over_white_ok] black_over_white_ok by blast

text \<open>
  C2. The specification states that in the edge pass every pixel whose row-major index
  is at least the width \<open>W\<close> is compared with the pixel one row above, that its contrast
  is added to the total and counted as an edge when it exceeds 30, that first-row pixels
  contribute nothing, and that both averages divide by the full pixel count. The loop of
  the source starts one pixel later: on the picture of a black row above a white row the
  first white pixel (index 2, the width) is skipped, so the loop finds a total contrast
  of 255 and one edge, where the specification gives 510 and two edges; the average
  contrast is 255/4 and the edge density 1/4 instead of 255/2 and 1/2.
\<close>

theorem C2_edge_pass_skips_pixel_at_width:
  "edge_pass black_over_white = (255, 1)
   \<and> spec_edge_pass black_over_white = (510, 2)
   \<and> avgContrast black_over_white = 255 / 4
   \<and> edgeDensity black_over_white = 1 / 4"
  by (simp add: black_over_white_pass black_over_white_spec black_over_white_avg
      black_over_white_density)

text \<open>
  C3. The specification states that, when the file cannot be decoded, the operation fails
  with a decode error that reaches the caller. The promise of the source is not rejected
  on the \<open>error\<close> event of the image.
\<close>

theorem C3_decode_failure_is_not_rejected:
  "validateMarkerImage ErrorEvent \<noteq> Rejected DecodeError"
  by (simp add: validateMarkerImage_def)

text \<open>
  C3, as the source has it: when the file cannot be decoded the promise stays pending, so
  no result, partial or whole, is produced and no error reaches the caller; the promise is
  never rejected, whatever the event; and every picture that \<open>getImageData\<close> can return
  yields a result.
\<close>

theorem C3_decode_failure_leaves_promise_pending:
  "validateMarkerImage ErrorEvent = Pending
   \<and> (\<forall>r. validateMarkerImage ErrorEvent \<noteq> Fulfilled r)
   \<and> (\<forall>ev e. validateMarkerImage ev \<noteq> Rejected e)
   \<and> (\<forall>img. imageData_ok img
          \<longrightarrow> validateMarkerImage (LoadEvent img) = Fulfilled (onload img))"
  by (simp add: validateMarkerImage_def imageData_ok_def split: image_event.splits)

theorem C3_decode_failure_leaves_promise_pending_witness:
  "imageData_ok black_over_white
   \<and> validateMarkerImage (LoadEvent black_over_white) = Fulfilled (onload black_over_white)
   \<and> validateMarkerImage ErrorEvent = Pending"
  using C3_decode_failure_leaves_promise_pending black_over_white_ok by blast

text \<open>
  C4. For every decoded image the issues are, in this order, "Image resolution is too low"
  exactly when the width or the height is below 256, "Unusual aspect ratio detected"
  exactly when width / height is below 0.5 or above 2, and "Low contrast detected" exactly
  when the average contrast is below 15; each issue comes with its recommendation. In
  particular every picture of 100 by 100 pixels reports the resolution issue and every
  picture of 1000 by 100 pixels reports the aspect ratio issue, whatever the pixels.
\<close>

theorem C4_issues_and_their_recommendations:
  assumes "imageData_ok img"
  shows "issues (onload img) =
           (if width img < 256 \<or> height img < 256
            then [''Image resolution is too low''] else [])
           @ (if (of_nat (width img) :: rat) / of_nat (height img) < 1 / 2
                 \<or> (of_nat (width img) :: rat) / of_nat (height img) > 2
              then [''Unusual aspect ratio detected''] else [])
           @ (if avgContrast img < 15 then [''Low contrast detected''] else [])
       \<and> (''Image resolution is too low'' \<in> set (issues (onload img))
            \<longleftrightarrow> width img < 256 \<or> height img < 256)
       \<and> (''Unusual aspect ratio detected'' \<in> set (issues (onload img))
            \<longleftrightarrow> (of_nat (width img) :: rat) / of_nat (height img) < 1 / 2
                 \<or> (of_nat (width img) :: rat) / of_nat (height img) > 2)
       \<and> (''Low contrast detected'' \<in> set (issues (onload img)) \<longleftrightarrow> avgContrast img < 15)
       \<and> (''Use images with at least 256x256 resolution'' \<in> set (recommendations (onload img))
            \<longleftrightarrow> ''Image resolution is too low'' \<in> set (issues (onload img)))
       \<and> (''Use images with aspect ratios between 1:2 and 2:1''
              \<in> set (recommendations (onload img))
            \<longleftrightarrow> ''Unusual aspect ratio detected'' \<in> set (issues (onload img)))
       \<and> (''Use images with clear, high-contrast features''
              \<in> set (recommendations (onload img))
            \<longleftrightarrow> ''Low contrast detected'' \<in> set (issues (onload img)))
       \<and> (width img = 100 \<and> height img = 100
            \<longrightarrow> ''Image resolution is too low'' \<in> set (issues (onload img))
              \<and> ''Use images with at least 256x256 resolution''
                    \<in> set (recommendations (onload img)))
       \<and> (width img = 1000 \<and> height img = 100
            \<longrightarrow> ''Unusual aspect ratio detected'' \<in> set (issues (onload img))
              \<and> ''Use images with aspect ratios between 1:2 and 2:1''
                    \<in> set (recommendations (onload img)))"
proof -
  have 1: "''Image resolution is too low'' \<in> set (issues (onload img))
            \<longleftrightarrow> width img < 256 \<or> height img < 256"
    by (simp add: issues_onload)
  have 2: "''Unusual aspect ratio detected'' \<in> set (issues (onload img))
            \<longleftrightarrow> (of_nat (width img) :: rat) / of_nat (height img) < 1 / 2
                 \<or> (of_nat (width img) :: rat) / of_nat (height img) > 2"
    by (simp add: issues_onload)
  have 3: "''Low contrast detected'' \<in> set (issues (onload img)) \<longleftrightarrow> avgContrast img < 15"
    by (simp add: issues_onload)
  have 4: "''Use images with at least 256x256 resolution'' \<in> set (recommendations (onload img))
            \<longleftrightarrow> width img < 256 \<or> height img < 256"
    by (simp add: recommendations_onload)
  have 5: "''Use images with aspect ratios between 1:2 and 2:1''
              \<in> set (recommendations (onload img))
            \<longleftrightarrow> (of_nat (width img) :: rat) / of_nat (height img) < 1 / 2
                 \<or> (of_nat (width img) :: rat) / of_nat (height img) > 2"
    by (simp add: recommendations_onload)
  have 6: "''Use images with clear, high-contrast features''
              \<in> set (recommendations (onload img)) \<longleftrightarrow> avgContrast img < 15"
    by (simp add: recommendations_onload)
  have 7: "width img = 1000 \<and> height img = 100
     \<longrightarrow> (of_nat (width img) :: rat) / of_nat (height img) > 2" by simp
  show ?thesis
    unfolding 1 2 3 4 5 6 using 7 issues_onload[of img] by simp
qed

theorem C4_issues_and_their_recommendations_witness:
  "imageData_ok small_square \<and> width small_square = 100 \<and> height small_square = 100
   \<and> ''Image resolution is too low'' \<in> set (issues (onload small_square))
   \<and> ''Use images with at least 256x256 resolution''
         \<in> set (recommendations (onload small_square))
   \<and> imageData_ok wide_strip \<and> width wide_strip = 1000 \<and> height wide_strip = 100
   \<and> ''Unusual aspect ratio detected'' \<in> set (issues (onload wide_strip))
   \<and> ''Use images with aspect ratios between 1:2 and 2:1''
         \<in> set (recommendations (onload wide_strip))"
proof -
  have s: "width small_square = 100" "height small_square = 100"
    by (simp_all add: small_square_def)
  have w: "width wide_strip = 1000" "height wide_strip = 100"
    by (simp_all add: wide_strip_def)
  show ?thesis
    using C4_issues_and_their_recommendations[OF small_square_ok]
      C4_issues_and_their_recommendations[OF wide_strip_ok]
      small_square_ok wide_strip_ok s w
    by blast
qed

text \<open>
  C5. For every decoded image the recommendation
  "Add more distinct features or patterns for better tracking" is in the list of
  recommendations if and only if the edge density is below 0.1, whatever the issues.
\<close>

theorem C5_feature_recommendation:
  assumes "imageData_ok img"
  shows "''Add more distinct features or patterns for better tracking''
           \<in> set (recommendations (onload img)) \<longleftrightarrow> edgeDensity img < 1 / 10"
  by (simp add: recommendations_onload)

theorem C5_feature_recommendation_witness:
  "imageData_ok one_pixel \<and> edgeDensity one_pixel < 1 / 10
   \<and> ''Add more distinct features or patterns for better tracking''
         \<in> set (recommendations (onload one_pixel))
   \<and> imageData_ok black_over_white \<and> \<not> edgeDensity black_over_white < 1 / 10
   \<and> ''Add more distinct features or patterns for better tracking''
         \<notin> set (recommendations (onload black_over_white))"
  using C5_feature_recommendation[OF one_pixel_ok]
    C5_feature_recommendation[OF black_over_white_ok]
    one_pixel_ok black_over_white_ok
  by (simp add: one_pixel_density black_over_white_density)

text \<open>
  C6. A solid-colour picture (all pixels equal) of at least 256 by 256 pixels and aspect
  ratio 1:1 has average contrast 0 and edge density 0; its issues include
  "Low contrast detected" and its quality is exactly 60.
\<close>

theorem C6_uniform_image:
  assumes "imageData_ok img" and "width img = height img" and "256 \<le> width img"
    and "uniform img"
  shows "avgContrast img = 0 \<and> edgeDensity img = 0
         \<and> ''Low contrast detected'' \<in> set (issues (onload img))
         \<and> issues (onload img) = [''Low contrast detected'']
         \<and> quality (onload img) = 60
         \<and> validateMarkerImage (LoadEvent img) = Fulfilled (onload img)"
proof -
  have e: "edge_pass img = (0, 0)" using assms(1,4) by (rule uniform_edge_pass)
  have a: "avgContrast img = 0" by (simp add: avgContrast_def e)
  have d: "edgeDensity img = 0" by (simp add: edgeDensity_def e)
  have h: "256 \<le> height img" "(of_nat (width img) :: rat) / of_nat (height img) = 1"
    using assms(2,3) by simp_all
  have i: "issues (onload img) = [''Low contrast detected'']"
    unfolding issues_onload h(2) using assms(3) h(1) by (simp add: a)
  have q: "quality (onload img) = 60" by (simp add: quality_onload a d)
  show ?thesis using a d i q fulfilled_when_ok[OF assms(1)] by simp
qed

theorem C6_uniform_image_witness:
  "imageData_ok white_square \<and> width white_square = height white_square
     \<and> 256 \<le> width white_square \<and> uniform white_square
     \<and> avgContrast white_square = 0 \<and> edgeDensity white_square = 0
     \<and> ''Low contrast detected'' \<in> set (issues (onload white_square))
     \<and> quality (onload white_square) = 60"
proof -
  have w: "width white_square = height white_square" "256 \<le> width white_square"
    by (simp_all add: white_square_def)
  show ?thesis
    using C6_uniform_image[OF white_square_ok w white_square_uniform]
      white_square_ok w white_square_uniform
    by simp
qed

text \<open>
  C7. A picture of 256 by 256 pixels whose rows alternate between all black and all white
  has an average contrast of at least 15, so "Low contrast detected" is not reported; its
  edge count is positive; and neither "Image resolution is too low" nor
  "Unusual aspect ratio detected" is reported.
\<close>

theorem C7_alternating_rows:
  assumes "imageData_ok img" and "width img = 256" and "height img = 256"
    and "alternating_rows img"
  shows "15 \<le> avgContrast img
         \<and> ''Low contrast detected'' \<notin> set (issues (onload img))
         \<and> 0 < snd (edge_pass img)
         \<and> ''Image resolution is too low'' \<notin> set (issues (onload img))
         \<and> ''Unusual aspect ratio detected'' \<notin> set (issues (onload img))
         \<and> validateMarkerImage (LoadEvent img) = Fulfilled (onload img)"
proof -
  have len: "length (data img) = 262144"
    using assms(1-3) by (simp add: imageData_ok_def)
  have e: "edge_pass img = (255 * 65279, 65279)"
    using alternating_edge_pass[OF assms(1,4)] by (simp add: assms(2,3))
  have a: "avgContrast img = 255 * 65279 / 65536"
    by (simp add: avgContrast_def e len)
  have i: "issues (onload img) = []"
    by (simp add: issues_onload a assms(2,3))
  show ?thesis using fulfilled_when_ok[OF assms(1)] by (simp add: i a e)
qed

theorem C7_alternating_rows_witness:
  "imageData_ok striped_square \<and> width striped_square = 256 \<and> height striped_square = 256
   \<and> alternating_rows striped_square
   \<and> 15 \<le> avgContrast striped_square
   \<and> 0 < snd (edge_pass striped_square)
   \<and> ''Low contrast detected'' \<notin> set (issues (onload striped_square))"
proof -
  have w: "width striped_square = 256" "height striped_square = 256"
    unfolding striped_square_def by simp_all
  show ?thesis
    using C7_alternating_rows[OF striped_square_ok w striped_square_rows]
      striped_square_ok w striped_square_rows
    by simp
qed

text \<open>
  C8. The heuristic is deterministic. Two runs of the handler on the same width, height
  and pixel bytes resolve with the same result (the same quality, the same sequence of
  issues, the same sequence of recommendations), whatever values the handler's variables
  hold when each run starts; in particular a second run that starts from the variables
  the first run left behind resolves with what the first run resolved with. The result is
  the one the promise is fulfilled with.
\<close>

theorem C8_deterministic:
  assumes "width a = width b" and "height a = height b" and "data a = data b"
  shows "snd (run_onload a s) = snd (run_onload b t)
       \<and> snd (run_onload b (fst (run_onload a s))) = snd (run_onload a s)
       \<and> quality (snd (run_onload a s)) = quality (snd (run_onload b t))
       \<and> issues (snd (run_onload a s)) = issues (snd (run_onload b t))
       \<and> recommendations (snd (run_onload a s)) = recommendations (snd (run_onload b t))
       \<and> snd (run_onload a s) = onload a
       \<and> validateMarkerImage (LoadEvent a) = validateMarkerImage (LoadEvent b)"
proof -
  have e: "a = b" using assms by simp
  show ?thesis unfolding e by (simp add: run_onload_result)
qed

theorem C8_deterministic_witness:
  "width black_over_white = width \<lparr>width = 2, height = 2,
        data = [0, 0, 0, 255, 0, 0, 0, 255, 255, 255, 255, 255, 255, 255, 255, 255]\<rparr>
   \<and> height black_over_white = height \<lparr>width = 2, height = 2,
        data = [0, 0, 0, 255, 0, 0, 0, 255, 255, 255, 255, 255, 255, 255, 255, 255]\<rparr>
   \<and> data black_over_white = data \<lparr>width = 2, height = 2,
        data = [0, 0, 0, 255, 0, 0, 0, 255, 255, 255, 255, 255, 255, 255, 255, 255]\<rparr>
   \<and> leftover_vars \<noteq> fresh_vars
   \<and> snd (run_onload black_over_white leftover_vars)
       = snd (run_onload \<lparr>width = 2, height = 2,
        data = [0, 0, 0, 255, 0, 0, 0, 255, 255, 255, 255, 255, 255, 255, 255, 255]\<rparr> fresh_vars)
   \<and> issues (snd (run_onload black_over_white leftover_vars))
       = [''Image resolution is too low'']
   \<and> snd (run_onload black_over_white
             (fst (run_onload black_over_white leftover_vars)))
       = snd (run_onload black_over_white leftover_vars)"
proof -
  let ?b = "\<lparr>width = 2, height = 2,
        data = [0, 0, 0, 255, 0, 0, 0, 255, 255, 255, 255, 255, 255, 255, 255, 255]\<rparr>"
  have e: "width black_over_white = width ?b" "height black_over_white = height ?b"
    "data black_over_white = data ?b"
    by (simp_all add: black_over_white_def)
  have b: "?b = black_over_white" by (simp add: black_over_white_def)
  have n: "leftover_vars \<noteq> fresh_vars" by (simp add: leftover_vars_def fresh_vars_def)
  have i: "issues (onload black_over_white) = [''Image resolution is too low'']"
    unfolding issues_onload black_over_white_avg by (simp add: black_over_white_def)
  have c: "snd (run_onload black_over_white leftover_vars)
             = snd (run_onload black_over_white fresh_vars)
           \<and> snd (run_onload black_over_white
                    (fst (run_onload black_over_white leftover_vars)))
               = snd (run_onload black_over_white leftover_vars)
           \<and> snd (run_onload black_over_white leftover_vars) = onload black_over_white"
    using C8_deterministic[OF e, of leftover_vars fresh_vars] unfolding b by blast
  from c have c1: "snd (run_onload black_over_white leftover_vars)
                     = snd (run_onload black_over_white fresh_vars)"
    and c2: "snd (run_onload black_over_white
                    (fst (run_onload black_over_white leftover_vars)))
               = snd (run_onload black_over_white leftover_vars)"
    and c3: "snd (run_onload black_over_white leftover_vars) = onload black_over_white"
    by blast+
  have r: "issues (snd (run_onload black_over_white leftover_vars))
             = [''Image resolution is too low'']"
    unfolding c3 by (rule i)
  show ?thesis unfolding b by (intro conjI) (rule refl n r c1 c2)+
qed

text \<open>
  C9. For every decoded image with an edge density of at least 0.1 the quality is exactly
  100; hence, whenever the quality is below 100, the recommendation
  "Add more distinct features or patterns for better tracking" is present.
\<close>

theorem C9_dense_edges_give_full_quality:
  assumes "imageData_ok img"
  shows "(1 / 10 \<le> edgeDensity img \<longrightarrow> quality (onload img) = 100)
       \<and> (quality (onload img) < 100
            \<longrightarrow> ''Add more distinct features or patterns for better tracking''
                  \<in> set (recommendations (onload img)))"
proof -
  have a: "0 \<le> avgContrast img" using assms by (rule avgContrast_nonneg)
  have 1: "quality (onload img) = 100" if "1 / 10 \<le> edgeDensity img"
  proof -
    have "100 \<le> (avgContrast img / 30) * 100 + (edgeDensity img * 1000)"
      using a that by simp
    then show ?thesis unfolding quality_onload by simp
  qed
  have 2: "''Add more distinct features or patterns for better tracking''
                  \<in> set (recommendations (onload img))" if "quality (onload img) < 100"
  proof -
    have "edgeDensity img < 1 / 10" using 1 that by fastforce
    then show ?thesis by (simp add: recommendations_onload)
  qed
  show ?thesis using 1 2 by blast
qed

theorem C9_dense_edges_give_full_quality_witness:
  "imageData_ok black_over_white \<and> 1 / 10 \<le> edgeDensity black_over_white
   \<and> quality (onload black_over_white) = 100
   \<and> imageData_ok one_pixel \<and> quality (onload one_pixel) < 100
   \<and> ''Add more distinct features or patterns for better tracking''
         \<in> set (recommendations (onload one_pixel))"
proof -
  have d: "1 / 10 \<le> edgeDensity black_over_white"
    by (simp add: black_over_white_density)
  have q: "quality (onload one_pixel) < 100"
    by (simp add: quality_onload one_pixel_avg one_pixel_density)
  show ?thesis
    using C9_dense_edges_give_full_quality[OF black_over_white_ok]
      C9_dense_edges_give_full_quality[OF one_pixel_ok]
      black_over_white_ok one_pixel_ok d q
    by blast
qed

text \<open>
  C10. For every decoded image the issues are a subsequence, without duplicates, of the
  three issues in their fixed order; the recommendations are a subsequence of the four
  recommendations in their fixed order; there are at least as many recommendations as
  issues, so that a picture with an issue has a recommendation.
\<close>

theorem C10_lists_are_ordered_sublists:
  assumes "imageData_ok img"
  shows "subseq (issues (onload img))
           [''Image resolution is too low'', ''Unusual aspect ratio detected'',
            ''Low contrast detected'']
       \<and> distinct (issues (onload img))
       \<and> subseq (recommendations (onload img))
           [''Use images with at least 256x256 resolution'',
            ''Use images with aspect ratios between 1:2 and 2:1'',
            ''Use images with clear, high-contrast features'',
            ''Add more distinct features or patterns for better tracking'']
       \<and> distinct (recommendations (onload img))
       \<and> length (issues (onload img)) \<le> length (recommendations (onload img))
       \<and> (issues (onload img) \<noteq> [] \<longrightarrow> recommendations (onload img) \<noteq> [])"
proof -
  have l: "length (issues (onload img)) \<le> length (recommendations (onload img))"
    unfolding issues_onload recommendations_onload by (rule lists_length)
  then have n: "issues (onload img) \<noteq> [] \<longrightarrow> recommendations (onload img) \<noteq> []"
    by auto
  show ?thesis
    using l n lists_shape unfolding issues_onload recommendations_onload by blast
qed

theorem C10_lists_are_ordered_sublists_witness:
  "imageData_ok black_over_white
   \<and> issues (onload black_over_white) \<noteq> []
   \<and> recommendations (onload black_over_white) \<noteq> []
   \<and> subseq (issues (onload black_over_white))
           [''Image resolution is too low'', ''Unusual aspect ratio detected'',
            ''Low contrast detected'']
   \<and> length (issues (onload black_over_white))
        \<le> length (recommendations (onload black_over_white))"
proof -
  have i: "issues (onload black_over_white) \<noteq> []"
    by (simp add: issues_onload black_over_white_def)
  show ?thesis
    using C10_lists_are_ordered_sublists[OF black_over_white_ok] black_over_white_ok i
    by blast
qed

end
